theory Spec2Isabelle
  imports Complex_Main
begin

section \<open>Python values\<close>

text \<open>
  Python floats are modelled as exact reals: every literal denotes its decimal value and
  arithmetic does not round.  Exceptions are values of \<open>py_error\<close>; a function that can
  raise returns \<open>py_error + 'a\<close> with \<open>Inl\<close> for the exception.
\<close>

datatype py_error = ZeroDivisionError | KeyError string | IntegrityError string | FetchError string

text \<open>Float division \<open>a / b\<close>: raises on a zero divisor.\<close>

definition py_truediv :: "real \<Rightarrow> real \<Rightarrow> py_error + real" where
  "py_truediv a b = (if b = 0 then Inl ZeroDivisionError else Inr (a / b))"

text \<open>
  A dict with string keys is an association list in insertion order.  \<open>d[k]\<close> raises
  KeyError on a missing key; \<open>d[k] = v\<close> overwrites in place or appends a new key.
\<close>

type_synonym 'v dict = "(string \<times> 'v) list"

definition dict_get :: "'v dict \<Rightarrow> string \<Rightarrow> py_error + 'v" where
  "dict_get d k = (case map_of d k of None \<Rightarrow> Inl (KeyError k) | Some v \<Rightarrow> Inr v)"

fun dict_set :: "'v dict \<Rightarrow> string \<Rightarrow> 'v \<Rightarrow> 'v dict" where
  "dict_set [] k v = [(k, v)]"
| "dict_set ((k', v') # d) k v = (if k' = k then (k, v) # d else (k', v') # dict_set d k v)"

text \<open>A dict comprehension whose value expression can raise: the first exception aborts it.\<close>

fun dict_comprehension :: "(string \<Rightarrow> 'v \<Rightarrow> py_error + 'w) \<Rightarrow> 'v dict \<Rightarrow> py_error + 'w dict" where
  "dict_comprehension f [] = Inr []"
| "dict_comprehension f ((k, v) # d) =
     (case f k v of
        Inl e \<Rightarrow> Inl e
      | Inr w \<Rightarrow> (case dict_comprehension f d of Inl e \<Rightarrow> Inl e | Inr d' \<Rightarrow> Inr ((k, w) # d')))"

section \<open>financial\_analyzer.py\<close>

record user_data =
  age :: int
  income :: real
  expenses :: real
  savings :: real
  risk_tolerance :: real

record analysis_result =
  risk_score :: real
  risk_category :: string
  expected_return :: real
  features :: "real list"

subsection \<open>analyze\_user\_profile\<close>

text \<open>
  The two fitted random forests are parameters: \<open>risk_model\<close> and \<open>return_model\<close> stand for
  \<open>self.risk_model.predict(features)[0]\<close> and \<open>self.return_model.predict(features)[0]\<close>.
\<close>

definition analyze_user_profile ::
  "(real list \<Rightarrow> real) \<Rightarrow> (real list \<Rightarrow> real) \<Rightarrow> user_data \<Rightarrow> analysis_result" where
  "analyze_user_profile risk_model return_model ud =
     (let feats = [of_int (age ud), income ud, expenses ud, savings ud, risk_tolerance ud];
          rs = risk_model feats;
          er = return_model feats;
          rc = (if rs < 0.33 then ''low''
                else if rs < 0.66 then ''medium''
                else ''high'')
      in \<lparr>risk_score = rs, risk_category = rc, expected_return = er, features = feats\<rparr>)"

subsection \<open>calculate\_investment\_allocation\<close>

text \<open>Base allocation by risk category; every category other than low and medium is high.\<close>

definition base_allocation :: "string \<Rightarrow> real dict" where
  "base_allocation rc =
     (if rc = ''low'' then
        [(''fixed_deposits'', 0.4),
         (''government_bonds'', 0.3),
         (''money_market_funds'', 0.2),
         (''mutual_funds'', 0.1),
         (''stocks'', 0.0),
         (''crypto'', 0.0)]
      else if rc = ''medium'' then
        [(''fixed_deposits'', 0.2),
         (''government_bonds'', 0.2),
         (''money_market_funds'', 0.1),
         (''mutual_funds'', 0.3),
         (''etfs'', 0.15),
         (''stocks'', 0.05),
         (''crypto'', 0.0)]
      else
        [(''fixed_deposits'', 0.1),
         (''government_bonds'', 0.1),
         (''money_market_funds'', 0.05),
         (''mutual_funds'', 0.25),
         (''etfs'', 0.2),
         (''stocks'', 0.25),
         (''crypto'', 0.05)])"

text \<open>\<open>allocation[k] = min(allocation[k] + delta, cap)\<close>\<close>

definition raise_capped :: "real dict \<Rightarrow> string \<Rightarrow> real \<Rightarrow> real \<Rightarrow> py_error + real dict" where
  "raise_capped allocation k delta cap =
     (case dict_get allocation k of
        Inl e \<Rightarrow> Inl e
      | Inr v \<Rightarrow> Inr (dict_set allocation k (min (v + delta) cap)))"

text \<open>\<open>allocation[k] = max(allocation[k] - delta, floor)\<close>\<close>

definition lower_floored :: "real dict \<Rightarrow> string \<Rightarrow> real \<Rightarrow> real \<Rightarrow> py_error + real dict" where
  "lower_floored allocation k delta flr =
     (case dict_get allocation k of
        Inl e \<Rightarrow> Inl e
      | Inr v \<Rightarrow> Inr (dict_set allocation k (max (v - delta) flr)))"

text \<open>The age adjustment (the \<open>if age < 35 ... elif age > 60 ...\<close> block).\<close>

definition adjust_for_age :: "int \<Rightarrow> real dict \<Rightarrow> py_error + real dict" where
  "adjust_for_age a allocation =
     (if a < 35 then
        (case raise_capped allocation ''stocks'' 0.1 0.4 of
           Inl e \<Rightarrow> Inl e
         | Inr a1 \<Rightarrow> raise_capped a1 ''crypto'' 0.05 0.15)
      else if a > 60 then
        (case raise_capped allocation ''fixed_deposits'' 0.2 0.6 of
           Inl e \<Rightarrow> Inl e
         | Inr a1 \<Rightarrow>
             (case raise_capped a1 ''government_bonds'' 0.1 0.4 of
                Inl e \<Rightarrow> Inl e
              | Inr a2 \<Rightarrow> lower_floored a2 ''stocks'' 0.1 0.0))
      else Inr allocation)"

text \<open>
  The renormalisation:
  \<open>total = sum(allocation.values()); allocation = {k: v/total for k, v in allocation.items()}\<close>
\<close>

definition normalize_allocation :: "real dict \<Rightarrow> py_error + real dict" where
  "normalize_allocation allocation =
     (let total = sum_list (map snd allocation)
      in dict_comprehension (\<lambda>k v. py_truediv v total) allocation)"

definition calculate_investment_allocation ::
  "user_data \<Rightarrow> analysis_result \<Rightarrow> py_error + real dict" where
  "calculate_investment_allocation ud ar =
     (case adjust_for_age (age ud) (base_allocation (risk_category ar)) of
        Inl e \<Rightarrow> Inl e
      | Inr allocation \<Rightarrow> normalize_allocation allocation)"

subsection \<open>get\_market\_data\<close>

text \<open>
  One row of the price history frame; \<open>Volume = None\<close> is a missing value (\<open>pd.isna\<close>).
\<close>

record bar =
  Close :: real
  Volume :: "real option"

text \<open>
  Close prices are finite.  The percentage change is a quotient that numpy computes without
  raising, so it can also be infinite or undefined: a \<open>pyfloat\<close>.
\<close>

datatype pyfloat = Finite real | PosInf | NegInf | NaN

record quote =
  current_price :: real
  change_percent :: pyfloat
  volume :: int
  high_52w :: real
  low_52w :: real

text \<open>
  \<open>round(x, 2)\<close> rounds the exact value of \<open>x\<close> to two decimals, a tie to the even
  neighbour (\<open>round(0.125, 2) = 0.12\<close>); \<open>int(x)\<close> truncates towards zero.
\<close>

definition round_half_even :: "real \<Rightarrow> int" where
  "round_half_even y =
     (let f = \<lfloor>y\<rfloor>
      in if y - of_int f < 1 / 2 then f
         else if y - of_int f > 1 / 2 then f + 1
         else if even f then f else f + 1)"

definition round2 :: "real \<Rightarrow> real" where
  "round2 x = of_int (round_half_even (x * 100)) / 100"

definition py_int :: "real \<Rightarrow> int" where
  "py_int x = (if 0 \<le> x then \<lfloor>x\<rfloor> else \<lceil>x\<rceil>)"

text \<open>
  Division of two finite floats in numpy: a zero divisor gives an infinity with the sign of
  the dividend, and \<open>0 / 0\<close> is not a number.
\<close>

definition np_truediv :: "real \<Rightarrow> real \<Rightarrow> pyfloat" where
  "np_truediv a b =
     (if b \<noteq> 0 then Finite (a / b)
      else if 0 < a then PosInf
      else if a < 0 then NegInf
      else NaN)"

text \<open>
  Subtracting 1, multiplying by 100 and \<open>round(x, 2)\<close> act on a finite value and leave an
  infinity or a NaN as it is.
\<close>

fun pyfloat_map :: "(real \<Rightarrow> real) \<Rightarrow> pyfloat \<Rightarrow> pyfloat" where
  "pyfloat_map g (Finite x) = Finite (g x)"
| "pyfloat_map g PosInf = PosInf"
| "pyfloat_map g NegInf = NegInf"
| "pyfloat_map g NaN = NaN"

text \<open>
  \<open>hist['Close'].pct_change().iloc[-1]\<close> on a frame of at least two rows: pandas computes
  \<open>close / close.shift(1) - 1\<close>, here at the last row.
\<close>

definition pct_change_last :: "real list \<Rightarrow> pyfloat" where
  "pct_change_last closes =
     (let cur = last closes; prev = last (butlast closes)
      in pyfloat_map (\<lambda>q. q - 1) (np_truediv cur prev))"

text \<open>The record built from a non-empty frame (the body of the \<open>if\<close>).\<close>

definition quote_of_history :: "bar list \<Rightarrow> quote" where
  "quote_of_history hist =
     (let closes = map Close hist;
          current = last closes;
          change = (if length hist > 1
                    then pyfloat_map (\<lambda>q. q * 100) (pct_change_last closes)
                    else Finite 0)
      in \<lparr>current_price = round2 current,
          change_percent = pyfloat_map round2 change,
          volume = (case Volume (last hist) of Some v \<Rightarrow> py_int v | None \<Rightarrow> 0),
          high_52w = round2 (Max (set closes)),
          low_52w = round2 (Min (set closes))\<rparr>)"

definition zero_quote :: quote where
  "zero_quote =
     \<lparr>current_price = 0, change_percent = Finite 0, volume = 0, high_52w = 0, low_52w = 0\<rparr>"

text \<open>
  The quote provider is a parameter: \<open>history symbol period\<close> is the outcome of
  \<open>yf.Ticker(symbol).history(period=period)\<close>, an exception or a frame.  Within one call
  the provider answers every request for the same symbol in the same way.

  \<open>try_fetch\<close> is the body of the \<open>try\<close>: it raises what the provider raises, stores a
  record for a non-empty frame and leaves the mapping alone for an empty one.
\<close>

definition try_fetch ::
  "(string \<Rightarrow> string \<Rightarrow> py_error + bar list) \<Rightarrow> string \<Rightarrow> string \<Rightarrow>
   (string \<rightharpoonup> quote) \<Rightarrow> py_error + (string \<rightharpoonup> quote)" where
  "try_fetch history period symbol market_data =
     (case history symbol period of
        Inl e \<Rightarrow> Inl e
      | Inr hist \<Rightarrow>
          if hist \<noteq> [] \<and> length hist > 0
          then Inr (market_data(symbol \<mapsto> quote_of_history hist))
          else Inr market_data)"

text \<open>The \<open>for\<close> loop; the \<open>except\<close> clause stores the all-zero record.\<close>

fun fetch_loop ::
  "(string \<Rightarrow> string \<Rightarrow> py_error + bar list) \<Rightarrow> string \<Rightarrow> string list \<Rightarrow>
   (string \<rightharpoonup> quote) \<Rightarrow> (string \<rightharpoonup> quote)" where
  "fetch_loop history period [] market_data = market_data"
| "fetch_loop history period (symbol # symbols) market_data =
     fetch_loop history period symbols
       (case try_fetch history period symbol market_data of
          Inl e \<Rightarrow> market_data(symbol \<mapsto> zero_quote)
        | Inr market_data' \<Rightarrow> market_data')"

definition get_market_data ::
  "(string \<Rightarrow> string \<Rightarrow> py_error + bar list) \<Rightarrow> string list \<Rightarrow> string \<Rightarrow> (string \<rightharpoonup> quote)" where
  "get_market_data history symbols period = fetch_loop history period symbols Map.empty"

subsection \<open>generate\_advice\_report\<close>

record breakdown_entry =
  percentage :: real
  amount :: real
  description :: string

record advice =
  summary :: string
  recommendations :: "string list"
  investment_breakdown :: "breakdown_entry dict"
  market_insights :: "string \<rightharpoonup> quote"

definition get_category_description :: "string \<Rightarrow> string" where
  "get_category_description category =
     (case map_of
        [(''fixed_deposits'', ''Low-risk, guaranteed returns from banks''),
         (''government_bonds'', ''Very safe, backed by government''),
         (''money_market_funds'', ''Short-term, low-risk investments''),
         (''mutual_funds'', ''Diversified portfolio managed by professionals''),
         (''etfs'', ''Exchange-traded funds tracking market indices''),
         (''stocks'', ''Individual company shares with higher volatility''),
         (''crypto'', ''Cryptocurrency investments with high volatility'')] category of
        Some d \<Rightarrow> d
      | None \<Rightarrow> ''Investment category'')"

text \<open>\<open>investable_amount = user_data['savings'] * 0.8\<close>\<close>

definition investable_amount :: "user_data \<Rightarrow> real" where
  "investable_amount ud = savings ud * 0.8"

text \<open>The loop over \<open>allocation.items()\<close> that fills \<open>advice['investment_breakdown']\<close>.\<close>

fun breakdown_loop :: "real \<Rightarrow> real dict \<Rightarrow> breakdown_entry dict \<Rightarrow> breakdown_entry dict" where
  "breakdown_loop investable [] acc = acc"
| "breakdown_loop investable ((category, pct) # rest) acc =
     breakdown_loop investable rest
       (if pct > 0
        then dict_set acc category
               \<lparr>percentage = pct * 100,
                amount = investable * pct,
                description = get_category_description category\<rparr>
        else acc)"

text \<open>
  \<open>format_pct\<close> stands for the format specification \<open>.1%\<close> of the summary's f-string.
\<close>

definition generate_advice_report ::
  "(real \<Rightarrow> string) \<Rightarrow> user_data \<Rightarrow> analysis_result \<Rightarrow> real dict \<Rightarrow> (string \<rightharpoonup> quote) \<Rightarrow> advice" where
  "generate_advice_report format_pct ud ar allocation market_data =
     (let rc = risk_category ar;
          investable = investable_amount ud
      in \<lparr>summary = ''Based on your profile, you have a '' @ rc
                      @ '' risk tolerance with an expected annual return of ''
                      @ format_pct (expected_return ar) @ ''.'',
          recommendations =
            (if rc = ''low'' then
               [''Focus on capital preservation with fixed deposits and government bonds.'',
                ''Consider a small allocation to mutual funds for growth.'']
             else if rc = ''medium'' then
               [''Balance between growth and stability with mutual funds and ETFs.'',
                ''Include some individual stocks for potential higher returns.'']
             else
               [''Embrace growth opportunities with higher stock allocation.'',
                ''Consider crypto for diversification, but limit exposure.'']),
          investment_breakdown = breakdown_loop investable allocation [],
          market_insights = market_data\<rparr>)"

section \<open>auth\_manager.py\<close>

text \<open>
  The \<open>users\<close> table as the list of its rows in insertion order, with the AUTOINCREMENT
  counter that SQLite keeps in \<open>sqlite_sequence\<close>.  Timestamps are natural numbers; the
  clock is a parameter.  Strings are byte strings, so \<open>password.encode()\<close> is the identity.
\<close>

record user_row =
  user_id :: nat
  username :: string
  password_hash :: string
  email :: "string option"
  created_at :: nat
  last_login :: "nat option"

record store =
  users :: "user_row list"
  sqlite_sequence :: nat

text \<open>\<open>sha256_hexdigest\<close> stands for \<open>hashlib.sha256(bytes).hexdigest()\<close>.\<close>

definition hash_password :: "(string \<Rightarrow> string) \<Rightarrow> string \<Rightarrow> string" where
  "hash_password sha256_hexdigest password = sha256_hexdigest password"

text \<open>
  \<open>INSERT INTO users (username, password_hash, email)\<close>: the UNIQUE constraint on
  \<open>username\<close> raises; otherwise the new row gets the next AUTOINCREMENT id.
\<close>

definition insert_user ::
  "store \<Rightarrow> string \<Rightarrow> string \<Rightarrow> string option \<Rightarrow> nat \<Rightarrow> py_error + store" where
  "insert_user s u h em now =
     (if u \<in> set (map username (users s))
      then Inl (IntegrityError ''UNIQUE constraint failed: users.username'')
      else
        (let new_id = Suc (fold max (map user_id (users s)) (sqlite_sequence s))
         in Inr \<lparr>users = users s @
                   [\<lparr>user_id = new_id, username = u, password_hash = h, email = em,
                     created_at = now, last_login = None\<rparr>],
                 sqlite_sequence = new_id\<rparr>))"

fun str_of_error :: "py_error \<Rightarrow> string" where
  "str_of_error ZeroDivisionError = ''float division by zero''"
| "str_of_error (KeyError k) = k"
| "str_of_error (IntegrityError m) = m"
| "str_of_error (FetchError m) = m"

text \<open>register\_user returns the new store and the pair \<open>(success, message)\<close>.\<close>

definition register_user ::
  "(string \<Rightarrow> string) \<Rightarrow> nat \<Rightarrow> store \<Rightarrow> string \<Rightarrow> string \<Rightarrow> string option \<Rightarrow>
   store \<times> bool \<times> string" where
  "register_user sha256_hexdigest now s u p em =
     (case find (\<lambda>r. username r = u) (users s) of
        Some r \<Rightarrow> (s, False, ''Username already exists'')
      | None \<Rightarrow>
          (case insert_user s u (hash_password sha256_hexdigest p) em now of
             Inl e \<Rightarrow> (s, False, ''Registration failed: '' @ str_of_error e)
           | Inr s' \<Rightarrow> (s', True, ''User registered successfully'')))"

text \<open>
  The second component of what authenticate\_user returns: the selected
  \<open>(id, username, email)\<close> on success, a message on failure.
\<close>

datatype auth_payload = User nat string "string option" | Message string

definition authenticate_user ::
  "(string \<Rightarrow> string) \<Rightarrow> nat \<Rightarrow> store \<Rightarrow> string \<Rightarrow> string \<Rightarrow> store \<times> bool \<times> auth_payload" where
  "authenticate_user sha256_hexdigest now s u p =
     (let h = hash_password sha256_hexdigest p
      in case find (\<lambda>r. username r = u \<and> password_hash r = h) (users s) of
           Some r \<Rightarrow>
             (s\<lparr>users := map (\<lambda>x. if user_id x = user_id r then x\<lparr>last_login := Some now\<rparr> else x)
                              (users s)\<rparr>,
              True, User (user_id r) (username r) (email r))
         | None \<Rightarrow> (s, False, Message ''Invalid username or password''))"

section \<open>Sample inputs\<close>

text \<open>
  A quote provider with one symbol that has data, one whose history is empty, and an
  exception for every other symbol; and a store with one registered user, hashed with
  \<open>rev\<close> in place of SHA-256.
\<close>

definition sample_history :: "string \<Rightarrow> string \<Rightarrow> py_error + bar list" where
  "sample_history symbol period =
     (if symbol = ''AAPL'' then Inr [\<lparr>Close = 150, Volume = Some 1000\<rparr>]
      else if symbol = ''DELISTED'' then Inr []
      else Inl (FetchError ''connection refused''))"

definition sample_store :: store where
  "sample_store =
     \<lparr>users = [\<lparr>user_id = 1, username = ''alice'', password_hash = rev ''secret'',
                 email = None, created_at = 0, last_login = None\<rparr>],
      sqlite_sequence = 1\<rparr>"

section \<open>Dictionaries\<close>

lemma map_of_dict_set: "map_of (dict_set d k v) = (map_of d)(k \<mapsto> v)"
  by (induction d k v rule: dict_set.induct) auto

lemma keys_dict_set: "map_of d k = Some w \<Longrightarrow> map fst (dict_set d k v) = map fst d"
  by (induction d k v rule: dict_set.induct) (auto split: if_splits)

lemma dict_comprehension_truediv:
  "t \<noteq> 0 \<Longrightarrow>
   dict_comprehension (\<lambda>k v. py_truediv v t) d = Inr (map (\<lambda>(k, v). (k, v / t)) d)"
  by (induction d) (auto simp: py_truediv_def)

lemma sum_list_div:
  "sum_list (map snd (map (\<lambda>(k, v). (k, v / t)) d)) = sum_list (map snd d) / (t::real)"
  by (induction d) (auto simp: add_divide_distrib)

section \<open>The allocation engine\<close>

lemma normalize_allocation_sum:
  assumes "sum_list (map snd d) \<noteq> 0"
  shows "\<exists>plan. normalize_allocation d = Inr plan \<and> sum_list (map snd plan) = 1"
  using assms
  by (simp add: normalize_allocation_def Let_def dict_comprehension_truediv sum_list_div
           del: map_map)

lemma normalize_unguarded:
  "d \<noteq> [] \<Longrightarrow> sum_list (map snd d) = 0 \<Longrightarrow> normalize_allocation d = Inl ZeroDivisionError"
  by (cases d) (auto simp: normalize_allocation_def py_truediv_def)

lemma adjusted_total_pos:
  "\<exists>d. adjust_for_age a (base_allocation rc) = Inr d \<and> 0 < sum_list (map snd d)"
  by (simp add: adjust_for_age_def base_allocation_def raise_capped_def lower_floored_def
      dict_get_def)

text \<open>
  C1.  For every user profile and every analysis result, calculate\_investment\_allocation
  returns a plan and the fractions of the plan sum to 1 (floats read as exact reals).
\<close>

theorem allocation_sums_to_one:
  "\<exists>plan. calculate_investment_allocation ud ar = Inr plan \<and> sum_list (map snd plan) = 1"
proof -
  obtain d where d: "adjust_for_age (age ud) (base_allocation (risk_category ar)) = Inr d"
    and pos: "0 < sum_list (map snd d)"
    using adjusted_total_pos by blast
  from pos have "sum_list (map snd d) \<noteq> 0" by simp
  from normalize_allocation_sum [OF this] show ?thesis
    by (simp add: calculate_investment_allocation_def d)
qed

text \<open>
  C2.  The risk score of the result is the prediction of the risk model, and the category
  is low below 0.33, medium from 0.33 up to but excluding 0.66, and high from 0.66 on.
\<close>

theorem risk_category_thresholds:
  "risk_score (analyze_user_profile risk_model return_model ud) =
     risk_model [of_int (age ud), income ud, expenses ud, savings ud, risk_tolerance ud]
 \<and> (risk_score (analyze_user_profile risk_model return_model ud) < 0.33
      \<longrightarrow> risk_category (analyze_user_profile risk_model return_model ud) = ''low'')
 \<and> (0.33 \<le> risk_score (analyze_user_profile risk_model return_model ud)
      \<and> risk_score (analyze_user_profile risk_model return_model ud) < 0.66
      \<longrightarrow> risk_category (analyze_user_profile risk_model return_model ud) = ''medium'')
 \<and> (0.66 \<le> risk_score (analyze_user_profile risk_model return_model ud)
      \<longrightarrow> risk_category (analyze_user_profile risk_model return_model ud) = ''high'')"
  by (simp add: analyze_user_profile_def Let_def)

lemma risk_score_const:
  "risk_score (analyze_user_profile (\<lambda>_. r) return_model ud) = r"
  by (simp add: analyze_user_profile_def Let_def)

theorem risk_category_thresholds_witness:
  "risk_category (analyze_user_profile (\<lambda>_. 0.2) (\<lambda>_. 0.05)
     \<lparr>age = 30, income = 50000, expenses = 30000, savings = 10000, risk_tolerance = 0.5\<rparr>) = ''low''
 \<and> risk_category (analyze_user_profile (\<lambda>_. 0.33) (\<lambda>_. 0.05)
     \<lparr>age = 30, income = 50000, expenses = 30000, savings = 10000, risk_tolerance = 0.5\<rparr>) = ''medium''
 \<and> risk_category (analyze_user_profile (\<lambda>_. 0.66) (\<lambda>_. 0.05)
     \<lparr>age = 30, income = 50000, expenses = 30000, savings = 10000, risk_tolerance = 0.5\<rparr>) = ''high''"
  using
    risk_category_thresholds [of "\<lambda>_. 0.2" "\<lambda>_. 0.05"
      "\<lparr>age = 30, income = 50000, expenses = 30000, savings = 10000, risk_tolerance = 0.5\<rparr>"]
    risk_category_thresholds [of "\<lambda>_. 0.33" "\<lambda>_. 0.05"
      "\<lparr>age = 30, income = 50000, expenses = 30000, savings = 10000, risk_tolerance = 0.5\<rparr>"]
    risk_category_thresholds [of "\<lambda>_. 0.66" "\<lambda>_. 0.05"
      "\<lparr>age = 30, income = 50000, expenses = 30000, savings = 10000, risk_tolerance = 0.5\<rparr>"]
  by (simp add: risk_score_const)

lemma raise_capped_present:
  "map_of d k = Some v \<Longrightarrow> raise_capped d k delta cap = Inr (dict_set d k (min (v + delta) cap))"
  by (simp add: raise_capped_def dict_get_def)

lemma lower_floored_present:
  "map_of d k = Some v \<Longrightarrow> lower_floored d k delta flr = Inr (dict_set d k (max (v - delta) flr))"
  by (simp add: lower_floored_def dict_get_def)

lemma adjust_young:
  assumes "a < 35" "map_of b ''stocks'' = Some s" "map_of b ''crypto'' = Some c"
  shows "adjust_for_age a b =
           Inr (dict_set (dict_set b ''stocks'' (min (s + 0.1) 0.4)) ''crypto'' (min (c + 0.05) 0.15))"
  using assms
  by (simp add: adjust_for_age_def raise_capped_present map_of_dict_set)

lemma adjust_old:
  assumes "a > 60" "map_of b ''fixed_deposits'' = Some f" "map_of b ''government_bonds'' = Some g"
    "map_of b ''stocks'' = Some s"
  shows "adjust_for_age a b =
           Inr (dict_set (dict_set (dict_set b ''fixed_deposits'' (min (f + 0.2) 0.6))
                  ''government_bonds'' (min (g + 0.1) 0.4)) ''stocks'' (max (s - 0.1) 0))"
  using assms
  by (simp add: adjust_for_age_def raise_capped_present lower_floored_present map_of_dict_set)

lemma adjust_middle: "35 \<le> a \<Longrightarrow> a \<le> 60 \<Longrightarrow> adjust_for_age a b = Inr b"
  by (simp add: adjust_for_age_def)

lemma base_allocation_keys:
  "map_of (base_allocation rc) ''fixed_deposits'' \<noteq> None"
  "map_of (base_allocation rc) ''government_bonds'' \<noteq> None"
  "map_of (base_allocation rc) ''stocks'' \<noteq> None"
  "map_of (base_allocation rc) ''crypto'' \<noteq> None"
  by (simp_all add: base_allocation_def del: not_None_eq)

text \<open>
  C3.  On the base table of every risk category, before renormalisation: below 35 stocks
  becomes min (stocks + 0.10) 0.40 and crypto min (crypto + 0.05) 0.15; above 60
  fixed\_deposits becomes min (fixed\_deposits + 0.20) 0.60, government\_bonds
  min (government\_bonds + 0.10) 0.40 and stocks max (stocks - 0.10) 0; every other entry and
  the order of the keys stay as they are; from 35 to 60 inclusive the table is unchanged.
\<close>

theorem age_adjustment:
  "(a < 35 \<longrightarrow>
      (\<exists>d s c. adjust_for_age a (base_allocation rc) = Inr d
         \<and> map_of (base_allocation rc) ''stocks'' = Some s
         \<and> map_of (base_allocation rc) ''crypto'' = Some c
         \<and> map_of d ''stocks'' = Some (min (s + 0.1) 0.4)
         \<and> map_of d ''crypto'' = Some (min (c + 0.05) 0.15)
         \<and> (\<forall>k. k \<noteq> ''stocks'' \<and> k \<noteq> ''crypto'' \<longrightarrow> map_of d k = map_of (base_allocation rc) k)
         \<and> map fst d = map fst (base_allocation rc)))
 \<and> (a > 60 \<longrightarrow>
      (\<exists>d f g s. adjust_for_age a (base_allocation rc) = Inr d
         \<and> map_of (base_allocation rc) ''fixed_deposits'' = Some f
         \<and> map_of (base_allocation rc) ''government_bonds'' = Some g
         \<and> map_of (base_allocation rc) ''stocks'' = Some s
         \<and> map_of d ''fixed_deposits'' = Some (min (f + 0.2) 0.6)
         \<and> map_of d ''government_bonds'' = Some (min (g + 0.1) 0.4)
         \<and> map_of d ''stocks'' = Some (max (s - 0.1) 0)
         \<and> (\<forall>k. k \<noteq> ''fixed_deposits'' \<and> k \<noteq> ''government_bonds'' \<and> k \<noteq> ''stocks''
                \<longrightarrow> map_of d k = map_of (base_allocation rc) k)
         \<and> map fst d = map fst (base_allocation rc)))
 \<and> (35 \<le> a \<and> a \<le> 60 \<longrightarrow> adjust_for_age a (base_allocation rc) = Inr (base_allocation rc))"
proof -
  obtain f g s c where
    f: "map_of (base_allocation rc) ''fixed_deposits'' = Some f" and
    g: "map_of (base_allocation rc) ''government_bonds'' = Some g" and
    s: "map_of (base_allocation rc) ''stocks'' = Some s" and
    c: "map_of (base_allocation rc) ''crypto'' = Some c"
    using base_allocation_keys [of rc] by auto
  have young: ?thesis if "a < 35"
    using that s c
    by (simp add: adjust_young [OF that s c] map_of_dict_set keys_dict_set)
  have old: ?thesis if "a > 60"
    using that f g s
    by (simp add: adjust_old [OF that f g s] map_of_dict_set keys_dict_set)
  have middle: ?thesis if "35 \<le> a" "a \<le> 60"
    using that by (simp add: adjust_middle)
  consider "a < 35" | "a > 60" | "35 \<le> a" "a \<le> 60"
    by linarith
  then show ?thesis
    using young old middle by cases
qed

theorem age_adjustment_witness:
  "((34::int) < 35 \<and>
      (\<exists>d s c. adjust_for_age 34 (base_allocation ''high'') = Inr d
         \<and> map_of (base_allocation ''high'') ''stocks'' = Some s
         \<and> map_of (base_allocation ''high'') ''crypto'' = Some c
         \<and> map_of d ''stocks'' = Some (min (s + 0.1) 0.4)
         \<and> map_of d ''crypto'' = Some (min (c + 0.05) 0.15)
         \<and> (\<forall>k. k \<noteq> ''stocks'' \<and> k \<noteq> ''crypto'' \<longrightarrow> map_of d k = map_of (base_allocation ''high'') k)
         \<and> map fst d = map fst (base_allocation ''high'')))
 \<and> ((61::int) > 60 \<and>
      (\<exists>d f g s. adjust_for_age 61 (base_allocation ''high'') = Inr d
         \<and> map_of (base_allocation ''high'') ''fixed_deposits'' = Some f
         \<and> map_of (base_allocation ''high'') ''government_bonds'' = Some g
         \<and> map_of (base_allocation ''high'') ''stocks'' = Some s
         \<and> map_of d ''fixed_deposits'' = Some (min (f + 0.2) 0.6)
         \<and> map_of d ''government_bonds'' = Some (min (g + 0.1) 0.4)
         \<and> map_of d ''stocks'' = Some (max (s - 0.1) 0)
         \<and> (\<forall>k. k \<noteq> ''fixed_deposits'' \<and> k \<noteq> ''government_bonds'' \<and> k \<noteq> ''stocks''
                \<longrightarrow> map_of d k = map_of (base_allocation ''high'') k)
         \<and> map fst d = map fst (base_allocation ''high'')))
 \<and> ((35::int) \<le> 35 \<and> (35::int) \<le> 60
       \<and> adjust_for_age 35 (base_allocation ''low'') = Inr (base_allocation ''low''))
 \<and> ((35::int) \<le> 60 \<and> (60::int) \<le> 60
       \<and> adjust_for_age 60 (base_allocation ''medium'') = Inr (base_allocation ''medium''))"
  using age_adjustment [of 34 "''high''"] age_adjustment [of 61 "''high''"]
    age_adjustment [of 35 "''low''"] age_adjustment [of 60 "''medium''"]
  by simp

text \<open>
  C4.  Low risk, age 30, savings 10000: the base table has 0.4, 0.3, 0.2 and 0.1 for
  fixed\_deposits, government\_bonds, money\_market\_funds and mutual\_funds and these are its
  only non-zero entries (stocks and crypto are present with 0); the adjustment raises stocks
  to 0.1 and crypto to 0.05; the total before renormalisation is 1.15; the normalised
  fixed\_deposits fraction is 0.4 / 1.15, within 0.0005 of 0.348; the investable amount
  is 8000.
\<close>

theorem literal_example:
  "base_allocation ''low'' =
     [(''fixed_deposits'', 0.4), (''government_bonds'', 0.3), (''money_market_funds'', 0.2),
      (''mutual_funds'', 0.1), (''stocks'', 0), (''crypto'', 0)]
 \<and> filter (\<lambda>(k, v). v \<noteq> 0) (base_allocation ''low'') =
     [(''fixed_deposits'', 0.4), (''government_bonds'', 0.3), (''money_market_funds'', 0.2),
      (''mutual_funds'', 0.1)]
 \<and> adjust_for_age 30 (base_allocation ''low'') =
     Inr [(''fixed_deposits'', 0.4), (''government_bonds'', 0.3), (''money_market_funds'', 0.2),
          (''mutual_funds'', 0.1), (''stocks'', 0.1), (''crypto'', 0.05)]
 \<and> sum_list (map snd [(''fixed_deposits'', 0.4), (''government_bonds'', 0.3),
          (''money_market_funds'', 0.2), (''mutual_funds'', 0.1), (''stocks'', 0.1),
          (''crypto'', 0.05 :: real)]) = 1.15
 \<and> calculate_investment_allocation (ud\<lparr>age := 30, savings := 10000\<rparr>)
       (ar\<lparr>risk_category := ''low''\<rparr>) =
     Inr [(''fixed_deposits'', 0.4 / 1.15), (''government_bonds'', 0.3 / 1.15),
          (''money_market_funds'', 0.2 / 1.15), (''mutual_funds'', 0.1 / 1.15),
          (''stocks'', 0.1 / 1.15), (''crypto'', 0.05 / 1.15)]
 \<and> \<bar>0.4 / 1.15 - 0.348\<bar> < (0.0005 :: real)
 \<and> investable_amount (ud\<lparr>age := 30, savings := 10000\<rparr>) = 8000"
  by (simp add: base_allocation_def adjust_for_age_def raise_capped_def dict_get_def
      calculate_investment_allocation_def normalize_allocation_def py_truediv_def
      investable_amount_def)

text \<open>
  C5 (amended).  The renormalisation has no guard: on a non-empty allocation whose total is
  zero it raises ZeroDivisionError.  Inside calculate\_investment\_allocation the total
  before renormalisation is strictly positive for every profile and every analysis result,
  so the call never fails with a division by zero.
\<close>

theorem normalization_total_positive:
  "(\<exists>d. adjust_for_age (age ud) (base_allocation (risk_category ar)) = Inr d
        \<and> 0 < sum_list (map snd d)
        \<and> calculate_investment_allocation ud ar = normalize_allocation d
        \<and> calculate_investment_allocation ud ar \<noteq> Inl ZeroDivisionError)
 \<and> (\<forall>d. d \<noteq> [] \<and> sum_list (map snd d) = 0 \<longrightarrow> normalize_allocation d = Inl ZeroDivisionError)"
proof -
  obtain d where d: "adjust_for_age (age ud) (base_allocation (risk_category ar)) = Inr d"
    and pos: "0 < sum_list (map snd d)"
    using adjusted_total_pos by blast
  have eq: "calculate_investment_allocation ud ar = normalize_allocation d"
    by (simp add: calculate_investment_allocation_def d)
  from pos have "sum_list (map snd d) \<noteq> 0" by simp
  from normalize_allocation_sum [OF this] have "normalize_allocation d \<noteq> Inl ZeroDivisionError"
    by auto
  with d pos eq show ?thesis
    by (auto simp: normalize_unguarded)
qed

theorem normalization_total_positive_witness:
  "[(''stocks'', 0::real)] \<noteq> [] \<and> sum_list (map snd [(''stocks'', 0::real)]) = 0
   \<and> normalize_allocation [(''stocks'', 0)] = Inl ZeroDivisionError"
  using normalization_total_positive by simp

text \<open>The renormalisation alone, on an allocation whose entries are all zero.\<close>

theorem normalize_zero_total_raises:
  "normalize_allocation [(''stocks'', 0), (''crypto'', 0)] = Inl ZeroDivisionError"
  by (simp add: normalize_allocation_def py_truediv_def)

section \<open>The market data gateway\<close>

lemma fetch_loop_lookup:
  "fetch_loop history p syms md s =
     (if s \<in> set syms then
        (case history s p of
           Inl e \<Rightarrow> Some zero_quote
         | Inr hist \<Rightarrow> if hist \<noteq> [] then Some (quote_of_history hist) else md s)
      else md s)"
  by (induction syms arbitrary: md) (auto simp: try_fetch_def split: sum.splits)

lemma get_market_data_lookup:
  "get_market_data history symbols period s =
     (if s \<in> set symbols then
        (case history s period of
           Inl e \<Rightarrow> Some zero_quote
         | Inr hist \<Rightarrow> if hist \<noteq> [] then Some (quote_of_history hist) else None)
      else None)"
  by (simp add: get_market_data_def fetch_loop_lookup)

text \<open>
  C6 (amended).  In every batch, every requested symbol whose fetch raises is mapped to the
  all-zero record, and every requested symbol whose fetch returns a non-empty history has an
  entry; each of the two holds on its own, whatever the other symbols of the batch do, so a
  batch with one of each has both entries.  The result is always a mapping: the exception is
  caught inside the loop.
\<close>

theorem partial_failure_isolation:
  "(\<forall>f e. f \<in> set symbols \<and> history f period = Inl e
        \<longrightarrow> get_market_data history symbols period f = Some zero_quote)
 \<and> (\<forall>g hist. g \<in> set symbols \<and> history g period = Inr hist \<and> hist \<noteq> []
        \<longrightarrow> get_market_data history symbols period g \<noteq> None)
 \<and> zero_quote =
     \<lparr>current_price = 0, change_percent = Finite 0, volume = 0, high_52w = 0, low_52w = 0\<rparr>"
  by (simp add: get_market_data_lookup zero_quote_def)

theorem partial_failure_isolation_witness:
  "get_market_data sample_history [''MSFT'', ''TSLA''] ''1mo'' ''MSFT'' = Some zero_quote
 \<and> get_market_data sample_history [''MSFT'', ''TSLA''] ''1mo'' ''TSLA'' = Some zero_quote
 \<and> get_market_data sample_history [''AAPL''] ''1mo'' ''AAPL'' \<noteq> None
 \<and> get_market_data sample_history [''MSFT'', ''AAPL''] ''1mo'' ''MSFT'' = Some zero_quote
 \<and> get_market_data sample_history [''MSFT'', ''AAPL''] ''1mo'' ''AAPL'' \<noteq> None"
proof -
  have raises: "sample_history ''MSFT'' ''1mo'' = Inl (FetchError ''connection refused'')"
    "sample_history ''TSLA'' ''1mo'' = Inl (FetchError ''connection refused'')"
    by (simp_all add: sample_history_def)
  have returns: "sample_history ''AAPL'' ''1mo'' = Inr [\<lparr>Close = 150, Volume = Some 1000\<rparr>]"
    "[\<lparr>Close = 150, Volume = Some 1000\<rparr>] \<noteq> []"
    by (simp_all add: sample_history_def)
  have members: "''MSFT'' \<in> set [''MSFT'', ''TSLA'']" "''TSLA'' \<in> set [''MSFT'', ''TSLA'']"
    "''AAPL'' \<in> set [''AAPL'']" "''MSFT'' \<in> set [''MSFT'', ''AAPL'']"
    "''AAPL'' \<in> set [''MSFT'', ''AAPL'']"
    by simp_all
  show ?thesis
    using raises returns members
      partial_failure_isolation [of "[''MSFT'', ''TSLA'']" sample_history "''1mo''"]
      partial_failure_isolation [of "[''AAPL'']" sample_history "''1mo''"]
      partial_failure_isolation [of "[''MSFT'', ''AAPL'']" sample_history "''1mo''"]
    by blast
qed

text \<open>
  A batch of a symbol whose fetch raises and a symbol whose fetch returns an empty history
  without raising: the second symbol has no entry.
\<close>

theorem empty_history_drops_symbol:
  "sample_history ''MSFT'' ''1mo'' = Inl (FetchError ''connection refused'')
 \<and> sample_history ''DELISTED'' ''1mo'' = Inr []
 \<and> get_market_data sample_history [''MSFT'', ''DELISTED''] ''1mo'' ''MSFT'' = Some zero_quote
 \<and> get_market_data sample_history [''MSFT'', ''DELISTED''] ''1mo'' ''DELISTED'' = None"
  by (simp add: get_market_data_lookup sample_history_def)

text \<open>
  C9.  A symbol whose fetch returns an empty history without raising has no entry in the
  result, not even the all-zero record, so the keys of the result are among the requested
  symbols other than this one.
\<close>

theorem empty_history_omitted:
  assumes "history s period = Inr []"
  shows "get_market_data history symbols period s = None
       \<and> dom (get_market_data history symbols period) \<subseteq> set symbols - {s}"
  using assms by (auto simp: get_market_data_lookup split: if_splits)

theorem empty_history_omitted_witness:
  "get_market_data sample_history [''DELISTED''] ''1mo'' ''DELISTED'' = None
 \<and> dom (get_market_data sample_history [''DELISTED''] ''1mo'') \<subseteq> set [''DELISTED''] - {''DELISTED''}"
  using empty_history_omitted [of sample_history "''DELISTED''" "''1mo''" "[''DELISTED'']"]
  by (simp add: sample_history_def)

section \<open>The advice composer\<close>

lemma breakdown_loop_lookup:
  "distinct (map fst al) \<Longrightarrow>
   map_of (breakdown_loop investable al acc) c =
     (case map_of al c of
        None \<Rightarrow> map_of acc c
      | Some p \<Rightarrow>
          if p > 0
          then Some \<lparr>percentage = p * 100, amount = investable * p,
                     description = get_category_description c\<rparr>
          else map_of acc c)"
proof (induction al arbitrary: acc)
  case Nil
  then show ?case by simp
next
  case (Cons x al)
  obtain k p where x: "x = (k, p)" by (cases x)
  from Cons.prems x have notin: "map_of al k = None" and dist: "distinct (map fst al)"
    by (auto simp: map_of_eq_None_iff)
  show ?case
    using notin by (auto simp: x Cons.IH [OF dist] map_of_dict_set split: option.splits)
qed

text \<open>
  C8.  The investable amount is savings times 0.8.  For an allocation with distinct keys
  (a dict), the breakdown has an entry for a category exactly when the allocation gives it
  a percentage greater than 0, and the amount of that entry is the investable amount times
  the percentage.
\<close>

theorem breakdown_entries:
  assumes "distinct (map fst allocation)"
  shows "investable_amount ud = savings ud * 0.8
       \<and> (\<forall>c. map_of (investment_breakdown
                        (generate_advice_report format_pct ud ar allocation market_data)) c =
               (case map_of allocation c of
                  None \<Rightarrow> None
                | Some p \<Rightarrow>
                    if p > 0
                    then Some \<lparr>percentage = p * 100, amount = savings ud * 0.8 * p,
                               description = get_category_description c\<rparr>
                    else None))"
  using assms
  by (auto simp: generate_advice_report_def Let_def breakdown_loop_lookup investable_amount_def
      split: option.splits)


theorem breakdown_entries_witness:
  "distinct (map fst [(''stocks'', 0.5 :: real), (''crypto'', 0)])
 \<and> investable_amount \<lparr>age = 30, income = 50000, expenses = 30000, savings = 10000,
       risk_tolerance = 0.5\<rparr> = 8000
 \<and> map_of (investment_breakdown (generate_advice_report (\<lambda>_. ''5.0%'')
       \<lparr>age = 30, income = 50000, expenses = 30000, savings = 10000, risk_tolerance = 0.5\<rparr>
       \<lparr>risk_score = 0.2, risk_category = ''low'', expected_return = 0.05, features = []\<rparr>
       [(''stocks'', 0.5), (''crypto'', 0)] Map.empty)) ''stocks''
     = Some \<lparr>percentage = 50, amount = 4000,
             description = ''Individual company shares with higher volatility''\<rparr>
 \<and> map_of (investment_breakdown (generate_advice_report (\<lambda>_. ''5.0%'')
       \<lparr>age = 30, income = 50000, expenses = 30000, savings = 10000, risk_tolerance = 0.5\<rparr>
       \<lparr>risk_score = 0.2, risk_category = ''low'', expected_return = 0.05, features = []\<rparr>
       [(''stocks'', 0.5), (''crypto'', 0)] Map.empty)) ''crypto'' = None"
proof -
  have h: "distinct (map fst [(''stocks'', 0.5 :: real), (''crypto'', 0)])"
    by simp
  show ?thesis
    using h breakdown_entries [OF h, of
        "\<lparr>age = 30, income = 50000, expenses = 30000, savings = 10000, risk_tolerance = 0.5\<rparr>"
        "\<lambda>_. ''5.0%''"
        "\<lparr>risk_score = 0.2, risk_category = ''low'', expected_return = 0.05, features = []\<rparr>"
        Map.empty]
    by (simp add: get_category_description_def)
qed

section \<open>The account store\<close>

lemma find_append_new:
  "\<forall>r \<in> set xs. \<not> P r \<Longrightarrow> P x \<Longrightarrow> find P (xs @ [x]) = Some x"
  by (induction xs) auto

lemma register_user_cases:
  "(\<exists>r. find (\<lambda>r. username r = u) (users s) = Some r
        \<and> register_user sha now s u p em = (s, False, ''Username already exists''))
 \<or> (\<forall>r \<in> set (users s). username r \<noteq> u) \<and>
    (\<exists>i. register_user sha now s u p em =
       (\<lparr>users = users s @ [\<lparr>user_id = i, username = u, password_hash = hash_password sha p,
                              email = em, created_at = now, last_login = None\<rparr>],
         sqlite_sequence = i\<rparr>, True, ''User registered successfully''))"
proof (cases "find (\<lambda>r. username r = u) (users s)")
  case None
  then have "\<forall>r \<in> set (users s). username r \<noteq> u"
    by (simp add: find_None_iff)
  with None show ?thesis
    by (auto simp: register_user_def insert_user_def Let_def)
next
  case (Some r)
  then show ?thesis
    by (simp add: register_user_def)
qed

lemma register_user_then_exists:
  "\<exists>r. find (\<lambda>r. username r = u) (users (fst (register_user sha now s u p em))) = Some r"
  using register_user_cases [of u s sha now p em]
  by (auto simp: find_append_new)

text \<open>
  C7.  On every store, a second register\_user with the same username returns
  \<open>(False, ''Username already exists'')\<close>.  For an existing user and a password whose hash
  is not the stored one, authenticate\_user leaves the store alone and returns
  \<open>(False, ''Invalid username or password'')\<close>, exactly what it returns for an unknown
  username.
\<close>

theorem duplicate_and_generic_failure:
  "snd (register_user sha now2 (fst (register_user sha now1 s u p1 em1)) u p2 em2)
     = (False, ''Username already exists'')
 \<and> ((\<exists>r \<in> set (users s). username r = u)
      \<and> (\<forall>r \<in> set (users s). username r = u \<longrightarrow> password_hash r \<noteq> hash_password sha p)
      \<and> (\<forall>r \<in> set (users s). username r \<noteq> v)
    \<longrightarrow> authenticate_user sha now s u p = (s, False, Message ''Invalid username or password'')
      \<and> authenticate_user sha now s v q = (s, False, Message ''Invalid username or password''))"
proof -
  obtain r where "find (\<lambda>r. username r = u) (users (fst (register_user sha now1 s u p1 em1))) = Some r"
    using register_user_then_exists by blast
  then have first: "snd (register_user sha now2 (fst (register_user sha now1 s u p1 em1)) u p2 em2)
     = (False, ''Username already exists'')"
    by (simp add: register_user_def)
  have second: "authenticate_user sha now s u p = (s, False, Message ''Invalid username or password'')"
    if "\<forall>r \<in> set (users s). username r = u \<longrightarrow> password_hash r \<noteq> hash_password sha p"
  proof -
    from that have "find (\<lambda>r. username r = u \<and> password_hash r = hash_password sha p) (users s) = None"
      by (auto simp: find_None_iff)
    then show ?thesis by (simp add: authenticate_user_def Let_def)
  qed
  have third: "authenticate_user sha now s v q = (s, False, Message ''Invalid username or password'')"
    if "\<forall>r \<in> set (users s). username r \<noteq> v"
  proof -
    from that have "find (\<lambda>r. username r = v \<and> password_hash r = hash_password sha q) (users s) = None"
      by (auto simp: find_None_iff)
    then show ?thesis by (simp add: authenticate_user_def Let_def)
  qed
  show ?thesis using first second third by blast
qed

theorem duplicate_and_generic_failure_witness:
  "map username (users sample_store) = [''alice'']
 \<and> map password_hash (users sample_store) = [''terces'']
 \<and> hash_password rev ''guess'' = ''sseug''
 \<and> authenticate_user rev 7 sample_store ''alice'' ''guess''
     = (sample_store, False, Message ''Invalid username or password'')
 \<and> authenticate_user rev 7 sample_store ''bob'' ''guess''
     = (sample_store, False, Message ''Invalid username or password'')"
proof -
  have h1: "\<exists>r \<in> set (users sample_store). username r = ''alice''"
    by (simp add: sample_store_def)
  have h2: "\<forall>r \<in> set (users sample_store).
       username r = ''alice'' \<longrightarrow> password_hash r \<noteq> hash_password rev ''guess''"
    by (simp add: sample_store_def hash_password_def)
  have h3: "\<forall>r \<in> set (users sample_store). username r \<noteq> ''bob''"
    by (simp add: sample_store_def)
  have facts: "map username (users sample_store) = [''alice'']"
    "map password_hash (users sample_store) = [''terces'']"
    "hash_password rev ''guess'' = ''sseug''"
    by (simp_all add: sample_store_def hash_password_def)
  from h1 h2 h3
    duplicate_and_generic_failure [where s = sample_store and u = "''alice''" and sha = rev
      and p = "''guess''" and v = "''bob''" and q = "''guess''" and now = 7]
  have "authenticate_user rev 7 sample_store ''alice'' ''guess''
          = (sample_store, False, Message ''Invalid username or password'')
      \<and> authenticate_user rev 7 sample_store ''bob'' ''guess''
          = (sample_store, False, Message ''Invalid username or password'')"
    by blast
  with facts show ?thesis
    by simp
qed

text \<open>
  C10.  If register\_user succeeds, which it does only on a store without the username, then
  authenticate\_user with the same username and password on the resulting store succeeds and
  returns the id, the username and the email of the row of that username.
\<close>

theorem register_then_authenticate:
  assumes "register_user sha now s u p em = (s', True, msg)"
  shows "\<exists>s'' r. authenticate_user sha now' s' u p = (s'', True, User (user_id r) u em)
           \<and> find (\<lambda>x. username x = u) (users s') = Some r
           \<and> (\<forall>x \<in> set (users s). username x \<noteq> u)"
proof -
  from assms register_user_cases [of u s sha now p em]
  obtain i where fresh: "\<forall>r \<in> set (users s). username r \<noteq> u"
    and s': "s' = \<lparr>users = users s @ [\<lparr>user_id = i, username = u,
                      password_hash = hash_password sha p, email = em, created_at = now,
                      last_login = None\<rparr>], sqlite_sequence = i\<rparr>"
    by auto
  let ?new = "\<lparr>user_id = i, username = u, password_hash = hash_password sha p, email = em,
                created_at = now, last_login = None\<rparr>"
  have f1: "find (\<lambda>x. username x = u \<and> password_hash x = hash_password sha p) (users s') = Some ?new"
    using fresh by (simp add: s' find_append_new)
  have f2: "find (\<lambda>x. username x = u) (users s') = Some ?new"
    using fresh by (simp add: s' find_append_new)
  show ?thesis
    using f1 f2 fresh by (simp add: authenticate_user_def Let_def)
qed

theorem register_then_authenticate_witness:
  "register_user rev 5 sample_store ''bob'' ''pw'' (Some ''bob@example.org'') =
     (\<lparr>users = users sample_store @
         [\<lparr>user_id = 2, username = ''bob'', password_hash = ''wp'',
           email = Some ''bob@example.org'', created_at = 5, last_login = None\<rparr>],
       sqlite_sequence = 2\<rparr>, True, ''User registered successfully'')
 \<and> (\<exists>s'' (r :: user_row). authenticate_user rev 6
       \<lparr>users = users sample_store @
         [\<lparr>user_id = 2, username = ''bob'', password_hash = ''wp'',
           email = Some ''bob@example.org'', created_at = 5, last_login = None\<rparr>],
        sqlite_sequence = 2\<rparr> ''bob'' ''pw''
       = (s'', True, User (user_id r) ''bob'' (Some ''bob@example.org'')))"
proof -
  have h: "register_user rev 5 sample_store ''bob'' ''pw'' (Some ''bob@example.org'') =
     (\<lparr>users = users sample_store @
         [\<lparr>user_id = 2, username = ''bob'', password_hash = ''wp'',
           email = Some ''bob@example.org'', created_at = 5, last_login = None\<rparr>],
       sqlite_sequence = 2\<rparr>, True, ''User registered successfully'')"
    by (simp add: register_user_def insert_user_def hash_password_def sample_store_def)
  from register_then_authenticate [OF h, of 6] obtain s'' and r :: user_row where
    "authenticate_user rev 6
       \<lparr>users = users sample_store @
         [\<lparr>user_id = 2, username = ''bob'', password_hash = ''wp'',
           email = Some ''bob@example.org'', created_at = 5, last_login = None\<rparr>],
        sqlite_sequence = 2\<rparr> ''bob'' ''pw''
       = (s'', True, User (user_id r) ''bob'' (Some ''bob@example.org''))"
    by auto
  with h show ?thesis
    by (intro conjI exI)
qed

end
